theory Spec2Isabelle
  imports Complex_Main "HOL-Library.Sublist"
begin

section \<open>Audit test sampler: the sampling engine of src/utils/samplingLogic.ts\<close>

text \<open>
  The engine is written in TypeScript. Its values are modelled as follows.
  \<^item> A JavaScript number is a \<^typ>\<open>real\<close>: rounding, NaN and the infinities of IEEE
    doubles are outside the model. \<open>sampleSize\<close> is an \<^typ>\<open>int\<close>: the only writer
    of the field is a slider with step 1 (ConfigPanel.tsx).
  \<^item> A JavaScript string is a \<^typ>\<open>string\<close>; case mapping and white space are the
    ASCII ones.
  \<^item> A raw spreadsheet cell is a \<open>cell\<close>; an object read from a file is the list of
    its own properties in the order \<open>Object.keys\<close> gives.
  \<^item> The built-in conversions that depend on the number format or on the time zone are
    parameters (\<open>builtins\<close>); the clock and the random source behind \<open>generateId\<close>
    and the console are an explicit \<open>world\<close> that is passed along.
\<close>

subsection \<open>Strings\<close>

definition upperLetters :: string where
  "upperLetters = ''ABCDEFGHIJKLMNOPQRSTUVWXYZ''"

definition lowerLetters :: string where
  "lowerLetters = ''abcdefghijklmnopqrstuvwxyz''"

definition toLowerChar :: "char \<Rightarrow> char" where
  "toLowerChar c = (case map_of (zip upperLetters lowerLetters) c of Some d \<Rightarrow> d | None \<Rightarrow> c)"

definition toUpperChar :: "char \<Rightarrow> char" where
  "toUpperChar c = (case map_of (zip lowerLetters upperLetters) c of Some d \<Rightarrow> d | None \<Rightarrow> c)"

definition toLowerCase :: "string \<Rightarrow> string" where
  "toLowerCase s = map toLowerChar s"

definition toUpperCase :: "string \<Rightarrow> string" where
  "toUpperCase s = map toUpperChar s"

definition isWhiteSpace :: "char \<Rightarrow> bool" where
  "isWhiteSpace c = (c \<in> set [CHR 0x09, CHR 0x0A, CHR 0x0B, CHR 0x0C, CHR 0x0D, CHR '' ''])"

definition trim :: "string \<Rightarrow> string" where
  "trim s = rev (dropWhile isWhiteSpace (rev (dropWhile isWhiteSpace s)))"

text \<open>\<open>includes_str s p\<close> is \<open>s.includes(p)\<close>, \<open>startsWith s p\<close> is \<open>s.startsWith(p)\<close>.\<close>

fun includes_str :: "string \<Rightarrow> string \<Rightarrow> bool" where
  "includes_str [] p = (p = [])"
| "includes_str (c # s) p = (prefix p (c # s) \<or> includes_str s p)"

definition startsWith :: "string \<Rightarrow> string \<Rightarrow> bool" where
  "startsWith s p = prefix p s"

fun join :: "string \<Rightarrow> string list \<Rightarrow> string" where
  "join sep [] = []"
| "join sep [x] = x"
| "join sep (x # y # ys) = x @ sep @ join sep (y # ys)"

subsection \<open>The data model (src/types.ts)\<close>

datatype cell = CUndefined | CNull | CBool bool | CNum real | CStr string

record Transaction =
  id_txn :: string
  date :: string
  accountNumber :: string
  accountName :: string
  description :: string
  amount :: real
  reference :: "string option"
  vendor :: "string option"
  extra :: "(string \<times> cell) list"

datatype SelectionReason = OVER_SCOPE | HIGH_VALUE_KEY_ITEM

record SelectedSample = Transaction +
  selectionReason :: SelectionReason
  accountGroup :: string
  groupTotalBalance :: real

record AccountGroup =
  groupAccountName :: string
  groupAccountNumber :: string
  transactions :: "Transaction list"
  totalBalance :: real
  transactionCount :: nat

record SamplingConfig =
  tolerableMisstatement :: real
  testingScope :: real
  targetKeywords :: "string list"
  sampleSize :: int

record SamplingSummary =
  totalMaterialAccounts :: nat
  totalValueTested :: real
  totalMaterialBalance :: real
  coveragePercentage :: real
  totalTransactionsReviewed :: nat
  overScopeCount :: nat
  highValueCount :: nat

record SamplingResults =
  samples :: "SelectedSample list"
  summary :: SamplingSummary
  accountGroups :: "AccountGroup list"
  filteredTransactionCount :: nat

subsection \<open>The world: id generation and the console\<close>

text \<open>
  \<open>generateId\<close> reads the clock and the random source. The world holds the ids it
  will return, in order, and the lines written with \<open>console.warn\<close>.
\<close>

record world =
  idSupply :: "nat \<Rightarrow> string"
  idsDrawn :: nat
  console :: "string list"

definition generateId :: "world \<Rightarrow> string \<times> world" where
  "generateId w = (idSupply w (idsDrawn w), w\<lparr>idsDrawn := Suc (idsDrawn w)\<rparr>)"

definition console_warn :: "string \<Rightarrow> world \<Rightarrow> world" where
  "console_warn msg w = w\<lparr>console := console w @ [msg]\<rparr>"

subsection \<open>Keyword filter\<close>

definition filterByKeywords :: "Transaction list \<Rightarrow> string list \<Rightarrow> Transaction list" where
  "filterByKeywords txs keywords =
     (let validKeywords = filter (\<lambda>k. trim k \<noteq> '''') keywords in
      if length validKeywords = 0 then txs
      else
        let upperKeywords = map (\<lambda>k. trim (toUpperCase k)) validKeywords in
        filter (\<lambda>txn. list_ex (\<lambda>keyword. includes_str (toUpperCase (accountName txn)) keyword)
                         upperKeywords) txs)"

subsection \<open>Account aggregator\<close>

text \<open>
  \<open>_.groupBy\<close> fills a fresh object: a value goes to the end of the array under its
  key, and a key seen for the first time becomes the newest property.
\<close>

fun groupBy_add :: "string \<Rightarrow> 'a \<Rightarrow> (string \<times> 'a list) list \<Rightarrow> (string \<times> 'a list) list" where
  "groupBy_add k v [] = [(k, [v])]"
| "groupBy_add k v ((k', vs) # rest) =
     (if k' = k then (k', vs @ [v]) # rest else (k', vs) # groupBy_add k v rest)"

definition groupBy :: "('a \<Rightarrow> string) \<Rightarrow> 'a list \<Rightarrow> (string \<times> 'a list) list" where
  "groupBy f xs = foldl (\<lambda>acc x. groupBy_add (f x) x acc) [] xs"

text \<open>
  \<open>Object.entries\<close> lists the own properties of an object in the order of
  OrdinaryOwnPropertyKeys: first the keys that are array indices (the canonical decimal
  form of an integer from 0 to 2^32 - 2), in ascending numeric order, then the other
  string keys in the order in which they were created.
\<close>

definition digitValue :: "char \<Rightarrow> nat option" where
  "digitValue c = map_of (zip ''0123456789'' [0, 1, 2, 3, 4, 5, 6, 7, 8, 9]) c"

definition isDigit :: "char \<Rightarrow> bool" where
  "isDigit c = (digitValue c \<noteq> None)"

definition digitsValue :: "string \<Rightarrow> nat" where
  "digitsValue s = foldl (\<lambda>n c. 10 * n + (case digitValue c of Some d \<Rightarrow> d | None \<Rightarrow> 0)) 0 s"

definition isArrayIndex :: "string \<Rightarrow> bool" where
  "isArrayIndex s =
     (s \<noteq> [] \<and> list_all isDigit s \<and> (s = ''0'' \<or> hd s \<noteq> CHR ''0'') \<and> digitsValue s < 4294967295)"

definition Object_entries :: "(string \<times> 'v) list \<Rightarrow> (string \<times> 'v) list" where
  "Object_entries props =
     sort_key (\<lambda>p. digitsValue (fst p)) (filter (\<lambda>p. isArrayIndex (fst p)) props)
       @ filter (\<lambda>p. \<not> isArrayIndex (fst p)) props"

text \<open>\<open>_.sumBy\<close> adds from the left; the sum of no element is 0.\<close>

definition sumBy :: "('a \<Rightarrow> 'n::monoid_add) \<Rightarrow> 'a list \<Rightarrow> 'n" where
  "sumBy f xs = foldl (\<lambda>acc x. acc + f x) 0 xs"

definition groupByAccount :: "Transaction list \<Rightarrow> AccountGroup list" where
  "groupByAccount txs =
     map (\<lambda>(name, txns).
            \<lparr> groupAccountName = name,
              groupAccountNumber = (case txns of [] \<Rightarrow> '''' | t # _ \<Rightarrow> accountNumber t),
              transactions = txns,
              totalBalance = sumBy (\<lambda>t. \<bar>amount t\<bar>) txns,
              transactionCount = length txns \<rparr>)
         (Object_entries (groupBy accountName txs))"

text \<open>
  The order the specification asks of the aggregator: the distinct values of a list in
  the order of their first occurrence.
\<close>

definition firstSeen :: "'a list \<Rightarrow> 'a list" where
  "firstSeen xs = rev (remdups (rev xs))"

subsection \<open>Materiality classifier\<close>

definition identifyMaterialAccounts :: "AccountGroup list \<Rightarrow> real \<Rightarrow> AccountGroup list" where
  "identifyMaterialAccounts groups tm = filter (\<lambda>g. totalBalance g > tm) groups"

subsection \<open>Sample selector\<close>

text \<open>\<open>_.orderBy(xs, [key], ["desc"])\<close>: a stable sort, largest key first.\<close>

definition orderByDesc :: "('a \<Rightarrow> real) \<Rightarrow> 'a list \<Rightarrow> 'a list" where
  "orderByDesc key xs = sort_key (\<lambda>x. - key x) xs"

text \<open>The object \<open>{...txn, selectionReason, accountGroup, groupTotalBalance}\<close>.\<close>

definition mkSample :: "SelectionReason \<Rightarrow> AccountGroup \<Rightarrow> Transaction \<Rightarrow> SelectedSample" where
  "mkSample r g txn =
     \<lparr> id_txn = id_txn txn, date = date txn, accountNumber = accountNumber txn,
       accountName = accountName txn, description = description txn, amount = amount txn,
       reference = reference txn, vendor = vendor txn, extra = extra txn,
       selectionReason = r, accountGroup = groupAccountName g,
       groupTotalBalance = totalBalance g \<rparr>"

text \<open>
  Both selection loops: walk the candidates, stop as soon as the samples selected so far
  number \<open>sampleSize\<close> or more, otherwise push the candidate.
\<close>

fun pushUpTo :: "int \<Rightarrow> (Transaction \<Rightarrow> SelectedSample) \<Rightarrow> Transaction list
    \<Rightarrow> SelectedSample list \<Rightarrow> SelectedSample list" where
  "pushUpTo n mk [] selected = selected"
| "pushUpTo n mk (txn # rest) selected =
     (if int (length selected) \<ge> n then selected
      else pushUpTo n mk rest (selected @ [mk txn]))"

definition selectSamplesFromAccount :: "AccountGroup \<Rightarrow> SamplingConfig \<Rightarrow> SelectedSample list" where
  "selectSamplesFromAccount g config =
     (let sortedTransactions = orderByDesc (\<lambda>t. \<bar>amount t\<bar>) (transactions g);
          overScopeTransactions =
            filter (\<lambda>t. \<bar>amount t\<bar> > testingScope config) sortedTransactions;
          selected1 = pushUpTo (sampleSize config) (mkSample OVER_SCOPE g)
                        overScopeTransactions []
      in if int (length selected1) < sampleSize config then
           let selectedIds = set (map id_txn selected1);
               remainingTransactions =
                 filter (\<lambda>t. id_txn t \<notin> selectedIds) sortedTransactions
           in pushUpTo (sampleSize config) (mkSample HIGH_VALUE_KEY_ITEM g)
                remainingTransactions selected1
         else selected1)"

subsection \<open>Summary calculator and orchestrator\<close>

definition calculateSummary :: "SelectedSample list \<Rightarrow> AccountGroup list \<Rightarrow> SamplingSummary" where
  "calculateSummary smpls materialAccounts =
     (let tvt = sumBy (\<lambda>s. \<bar>amount s\<bar>) smpls;
          tmb = sumBy totalBalance materialAccounts
      in \<lparr> totalMaterialAccounts = length materialAccounts,
           totalValueTested = tvt,
           totalMaterialBalance = tmb,
           coveragePercentage = (if tmb > 0 then (tvt / tmb) * 100 else 0),
           totalTransactionsReviewed = sumBy transactionCount materialAccounts,
           overScopeCount = length (filter (\<lambda>s. selectionReason s = OVER_SCOPE) smpls),
           highValueCount =
             length (filter (\<lambda>s. selectionReason s = HIGH_VALUE_KEY_ITEM) smpls) \<rparr>)"

text \<open>\<open>rawTransactions.map((t) => ({...t, id: t.id || generateId()}))\<close>, left to right.\<close>

fun backfillIds :: "Transaction list \<Rightarrow> world \<Rightarrow> Transaction list \<times> world" where
  "backfillIds [] w = ([], w)"
| "backfillIds (t # ts) w =
     (if id_txn t \<noteq> '''' then
        (let (rest, w') = backfillIds ts w in (t # rest, w'))
      else
        (let (i, w1) = generateId w; (rest, w') = backfillIds ts w1
         in (t\<lparr>id_txn := i\<rparr> # rest, w')))"

definition performSampling :: "Transaction list \<Rightarrow> SamplingConfig \<Rightarrow> world
    \<Rightarrow> SamplingResults \<times> world" where
  "performSampling rawTransactions config w =
     (let (transactionsWithIds, w') = backfillIds rawTransactions w;
          filteredTransactions = filterByKeywords transactionsWithIds (targetKeywords config);
          groups = groupByAccount filteredTransactions;
          materialAccounts = identifyMaterialAccounts groups (tolerableMisstatement config);
          allSamples = concat (map (\<lambda>g. selectSamplesFromAccount g config) materialAccounts);
          smry = calculateSummary allSamples materialAccounts
      in (\<lparr> samples = allSamples, summary = smry, accountGroups = materialAccounts,
            filteredTransactionCount = length filteredTransactions \<rparr>, w'))"

subsection \<open>Raw cells and the built-in conversions\<close>

text \<open>
  \<open>String(x)\<close> of a number depends on the number format and the date of a serial
  number on the time zone of the browser; both are parameters of the model, and every
  theorem holds for all of them.
\<close>

record builtins =
  numberToString :: "real \<Rightarrow> string"
  excelDateString :: "real \<Rightarrow> string"

text \<open>The truth value of a cell in a condition, \<open>String(c)\<close> and \<open>String(c || "")\<close>.\<close>

fun truthy :: "cell \<Rightarrow> bool" where
  "truthy CUndefined = False"
| "truthy CNull = False"
| "truthy (CBool v) = v"
| "truthy (CNum x) = (x \<noteq> 0)"
| "truthy (CStr s) = (s \<noteq> [])"

fun String_of :: "builtins \<Rightarrow> cell \<Rightarrow> string" where
  "String_of b CUndefined = ''undefined''"
| "String_of b CNull = ''null''"
| "String_of b (CBool v) = (if v then ''true'' else ''false'')"
| "String_of b (CNum x) = numberToString b x"
| "String_of b (CStr s) = s"

definition stringOrEmpty :: "builtins \<Rightarrow> cell \<Rightarrow> string" where
  "stringOrEmpty b c = (if truthy c then String_of b c else '''')"

text \<open>\<open>row[k]\<close>: reading past the end of an array gives \<open>undefined\<close>.\<close>

definition cellAt :: "cell list \<Rightarrow> nat \<Rightarrow> cell" where
  "cellAt row k = (if k < length row then row ! k else CUndefined)"

subsection \<open>Amounts\<close>

text \<open>\<open>s.replace(/[$,]/g, "")\<close>.\<close>

definition stripCurrency :: "string \<Rightarrow> string" where
  "stripCurrency s = filter (\<lambda>c. c \<noteq> CHR ''$'' \<and> c \<noteq> CHR '','') s"

text \<open>
  \<open>s.replace(/\(([^)]+)\)/, "-$1")\<close>: the leftmost opening parenthesis that is
  followed by at least one character other than a closing parenthesis and then by a
  closing parenthesis; the three parts are replaced by a minus sign and the characters
  in between.
\<close>

fun replaceParen :: "string \<Rightarrow> string" where
  "replaceParen [] = []"
| "replaceParen (c # s) =
     (if c = CHR ''('' \<and> takeWhile (\<lambda>x. x \<noteq> CHR '')'') s \<noteq> []
          \<and> dropWhile (\<lambda>x. x \<noteq> CHR '')'') s \<noteq> []
      then CHR ''-'' # takeWhile (\<lambda>x. x \<noteq> CHR '')'') s @ tl (dropWhile (\<lambda>x. x \<noteq> CHR '')'') s)
      else c # replaceParen s)"

text \<open>
  \<open>parseFloat\<close>: white space is skipped, then the longest prefix that is a decimal
  literal (sign, digits, fraction, exponent) is read; \<open>None\<close> is NaN. The literal
  Infinity, which \<open>parseFloat\<close> maps to a non-finite double, has no counterpart among
  the reals and is read as NaN here.
\<close>

definition signOf :: "string \<Rightarrow> bool \<times> string" where
  "signOf t = (case t of [] \<Rightarrow> (False, [])
     | c # r \<Rightarrow> if c = CHR ''-'' then (True, r) else if c = CHR ''+'' then (False, r) else (False, t))"

definition exponentOf :: "string \<Rightarrow> int" where
  "exponentOf r = (case r of [] \<Rightarrow> 0
     | c # r' \<Rightarrow>
         if c = CHR ''e'' \<or> c = CHR ''E'' then
           (let ds = takeWhile isDigit (snd (signOf r'))
            in if ds = [] then 0
               else if fst (signOf r') then - int (digitsValue ds) else int (digitsValue ds))
         else 0)"

definition parseFloat :: "string \<Rightarrow> real option" where
  "parseFloat s =
     (let t = signOf (dropWhile isWhiteSpace s);
          ip = takeWhile isDigit (snd t);
          r1 = dropWhile isDigit (snd t);
          fp = (case r1 of [] \<Rightarrow> [] | c # r \<Rightarrow> if c = CHR ''.'' then takeWhile isDigit r else []);
          r2 = (case r1 of [] \<Rightarrow> [] | c # r \<Rightarrow> if c = CHR ''.'' then dropWhile isDigit r else r1)
      in if ip = [] \<and> fp = [] then None
         else
           let m = real (digitsValue ip) + real (digitsValue fp) / 10 ^ length fp;
               e = exponentOf r2;
               v = (if e \<ge> 0 then m * 10 ^ nat e else m / 10 ^ nat (- e))
           in Some (if fst t then - v else v))"

text \<open>
  The amount of a raw cell, in both parsers: a number as it is, a string cleaned and
  parsed with \<open>parseFloat(cleaned) || 0\<close>, anything else 0.
\<close>

definition cleanAmount :: "string \<Rightarrow> string" where
  "cleanAmount s = trim (replaceParen (stripCurrency s))"

fun parseAmount :: "cell \<Rightarrow> real" where
  "parseAmount (CNum x) = x"
| "parseAmount (CStr s) = (case parseFloat (cleanAmount s) of None \<Rightarrow> 0 | Some v \<Rightarrow> v)"
| "parseAmount c = 0"

subsection \<open>Hierarchical ledgers\<close>

definition rowStr :: "builtins \<Rightarrow> cell list \<Rightarrow> string" where
  "rowStr b row = join '' '' (map (\<lambda>c. toLowerCase (stringOrEmpty b c)) row)"

definition isHeaderRow :: "builtins \<Rightarrow> cell list \<Rightarrow> bool" where
  "isHeaderRow b row =
     (includes_str (rowStr b row) ''date''
      \<and> (includes_str (rowStr b row) ''amount'' \<or> includes_str (rowStr b row) ''balance''))"

text \<open>
  The inner condition of detectHierarchicalGLFormat at row j: a non-empty string without
  "total" in column 0, and a next row whose column 0 is null, undefined or empty.
\<close>

definition accountRowAt :: "cell list list \<Rightarrow> nat \<Rightarrow> bool" where
  "accountRowAt rawData j =
     ((case cellAt (rawData ! j) 0 of
         CStr s \<Rightarrow> s \<noteq> [] \<and> \<not> includes_str (toLowerCase s) ''total''
       | _ \<Rightarrow> False)
      \<and> j + 1 < length rawData
      \<and> (cellAt (rawData ! (j + 1)) 0 = CNull \<or> cellAt (rawData ! (j + 1)) 0 = CUndefined
           \<or> cellAt (rawData ! (j + 1)) 0 = CStr ''''))"

definition detectHierarchicalGLFormat :: "builtins \<Rightarrow> cell list list \<Rightarrow> bool" where
  "detectHierarchicalGLFormat b rawData =
     (if length rawData < 10 then False
      else list_ex (\<lambda>i. isHeaderRow b (rawData ! i)
                        \<and> list_ex (accountRowAt rawData) [i + 1 ..< min (i + 10) (length rawData)])
             [0 ..< min 10 (length rawData)])"

definition findHeaderRow :: "builtins \<Rightarrow> cell list list \<Rightarrow> nat option" where
  "findHeaderRow b rawData =
     find (\<lambda>i. isHeaderRow b (rawData ! i)) [0 ..< min 10 (length rawData)]"

text \<open>The header names: \<open>row.map((c) => String(c || "").toLowerCase().trim())\<close>.\<close>

definition headerNames :: "builtins \<Rightarrow> cell list \<Rightarrow> string list" where
  "headerNames b row = map (\<lambda>c. trim (toLowerCase (stringOrEmpty b c))) row"

text \<open>\<open>xs.findIndex(p)\<close>; \<open>None\<close> is the result -1.\<close>

fun findIndex :: "('a \<Rightarrow> bool) \<Rightarrow> 'a list \<Rightarrow> nat option" where
  "findIndex p [] = None"
| "findIndex p (x # xs) = (if p x then Some 0 else map_option Suc (findIndex p xs))"

record columns =
  dateColIdx :: "nat option"
  amountColIdx :: "nat option"
  memoColIdx :: "nat option"
  numColIdx :: "nat option"
  nameColIdx :: "nat option"
  typeColIdx :: "nat option"

definition resolveColumns :: "string list \<Rightarrow> columns" where
  "resolveColumns headers =
     \<lparr> dateColIdx = findIndex (\<lambda>h. h \<noteq> [] \<and> h = ''date'') headers,
       amountColIdx = findIndex (\<lambda>h. h \<noteq> [] \<and> h = ''amount'') headers,
       memoColIdx = findIndex (\<lambda>h. h \<noteq> [] \<and> (includes_str h ''memo'' \<or> includes_str h ''description'')) headers,
       numColIdx = findIndex (\<lambda>h. h \<noteq> [] \<and> h = ''num'') headers,
       nameColIdx = findIndex (\<lambda>h. h \<noteq> [] \<and> h = ''name'') headers,
       typeColIdx = findIndex (\<lambda>h. h \<noteq> [] \<and> includes_str h ''type'') headers \<rparr>"

text \<open>\<open>idx >= 0 ? row[idx] : dflt\<close>.\<close>

definition colCell :: "nat option \<Rightarrow> cell list \<Rightarrow> cell \<Rightarrow> cell" where
  "colCell idx row dflt = (case idx of Some k \<Rightarrow> cellAt row k | None \<Rightarrow> dflt)"

text \<open>
  The body of the loop over the data rows, at row i: the transaction pushed (if any),
  the current account name after the row, and the world after the row.
\<close>

definition processDataRow :: "builtins \<Rightarrow> columns \<Rightarrow> nat \<Rightarrow> cell list \<Rightarrow> string \<Rightarrow> world
    \<Rightarrow> Transaction option \<times> string \<times> world" where
  "processDataRow b cols i row currentAccountName w =
     (let rawAmount = colCell (amountColIdx cols) row CNull in
      if rawAmount = CNull \<or> rawAmount = CUndefined \<or> rawAmount = CStr '''' then
        (None, currentAccountName, w)
      else if includes_str (toLowerCase (String_of b (colCell (dateColIdx cols) row (CStr ''''))))
                ''beginning balance'' then
        (None, currentAccountName, w)
      else if parseAmount rawAmount = 0 then
        (None, currentAccountName, w)
      else
        (Some \<lparr> id_txn = fst (generateId w),
                date = (case colCell (dateColIdx cols) row (CStr '''') of
                          CNum x \<Rightarrow> excelDateString b x
                        | rawDate \<Rightarrow> stringOrEmpty b rawDate),
                accountNumber = '''',
                accountName = currentAccountName,
                description = (case memoColIdx cols of
                                 Some k \<Rightarrow> stringOrEmpty b (cellAt row k) | None \<Rightarrow> ''''),
                amount = parseAmount rawAmount,
                reference = (case numColIdx cols of
                               Some k \<Rightarrow> Some (stringOrEmpty b (cellAt row k)) | None \<Rightarrow> None),
                vendor = (case nameColIdx cols of
                            Some k \<Rightarrow> Some (stringOrEmpty b (cellAt row k)) | None \<Rightarrow> None),
                extra = [(''_rowIndex'', CNum (real (i + 1)))] \<rparr>,
         currentAccountName, snd (generateId w)))"

definition processRow :: "builtins \<Rightarrow> columns \<Rightarrow> nat \<Rightarrow> cell list \<Rightarrow> string \<Rightarrow> world
    \<Rightarrow> Transaction option \<times> string \<times> world" where
  "processRow b cols i row currentAccountName w =
     (case cellAt row 0 of
        CStr firstCol \<Rightarrow>
          if firstCol \<noteq> [] \<and> trim firstCol \<noteq> [] then
            (None,
             if \<not> startsWith (toLowerCase (trim firstCol)) ''total'' then trim firstCol
             else currentAccountName,
             w)
          else processDataRow b cols i row currentAccountName w
      | _ \<Rightarrow> processDataRow b cols i row currentAccountName w)"

fun processRows :: "builtins \<Rightarrow> columns \<Rightarrow> nat \<Rightarrow> cell list list \<Rightarrow> string \<Rightarrow> world
    \<Rightarrow> Transaction list \<times> world" where
  "processRows b cols i [] currentAccountName w = ([], w)"
| "processRows b cols i (row # rows) currentAccountName w =
     (case processRow b cols i row currentAccountName w of
        (pushed, currentAccountName', w') \<Rightarrow>
          (case processRows b cols (i + 1) rows currentAccountName' w' of
             (out, w'') \<Rightarrow> ((case pushed of None \<Rightarrow> [] | Some t \<Rightarrow> [t]) @ out, w'')))"

text \<open>
  parseHierarchicalGL returns the transactions; the line it writes with
  \<open>console.warn\<close> when no header row is found is in the world it returns.
\<close>

definition parseHierarchicalGL :: "builtins \<Rightarrow> cell list list \<Rightarrow> world
    \<Rightarrow> Transaction list \<times> world" where
  "parseHierarchicalGL b rawData w =
     (case findHeaderRow b rawData of
        None \<Rightarrow> ([], console_warn ''Could not find header row in hierarchical GL'' w)
      | Some headerRowIndex \<Rightarrow>
          processRows b (resolveColumns (headerNames b (rawData ! headerRowIndex)))
            (headerRowIndex + 1) (drop (headerRowIndex + 1) rawData) '''' w)"

subsection \<open>Flat files: the column mapper\<close>

text \<open>
  A record of a flat file is an object: the list of its own properties, in the order of
  \<open>Object.keys\<close>. \<open>property row k\<close> is \<open>row[k]\<close>.
\<close>

type_synonym rawRecord = "(string \<times> cell) list"

definition property :: "rawRecord \<Rightarrow> string \<Rightarrow> cell" where
  "property row k = (case map_of row k of Some c \<Rightarrow> c | None \<Rightarrow> CUndefined)"

definition columnPatterns_date :: "string list" where
  "columnPatterns_date = [''date'', ''transaction date'', ''trans date'', ''posting date'', ''gl date'']"

definition columnPatterns_accountNumber :: "string list" where
  "columnPatterns_accountNumber =
     [''account'', ''account number'', ''acct'', ''acct no'', ''account no'', ''gl account'']"

definition columnPatterns_accountName :: "string list" where
  "columnPatterns_accountName =
     [''account name'', ''account description'', ''acct name'', ''description'', ''account desc'',
      ''gl description'']"

definition columnPatterns_amount :: "string list" where
  "columnPatterns_amount =
     [''amount'', ''debit'', ''credit'', ''value'', ''transaction amount'', ''trans amount'']"

definition columnPatterns_description :: "string list" where
  "columnPatterns_description =
     [''memo'', ''description'', ''transaction description'', ''line description'', ''detail'',
      ''narration'']"

definition columnPatterns_reference :: "string list" where
  "columnPatterns_reference =
     [''reference'', ''ref'', ''doc no'', ''document'', ''invoice'', ''check no'', ''voucher'']"

definition columnPatterns_vendor :: "string list" where
  "columnPatterns_vendor = [''vendor'', ''payee'', ''supplier'', ''customer'', ''party'']"

definition normalizeHeader :: "string \<Rightarrow> string" where
  "normalizeHeader c = trim (toLowerCase c)"

text \<open>
  \<open>findColumn\<close>, given the keys of the first record: the first pattern that some
  normalized key equals or contains decides; the result is the first key whose
  normalized form is that key's.
\<close>

fun findColumn :: "string list \<Rightarrow> string list \<Rightarrow> string option" where
  "findColumn ks [] = None"
| "findColumn ks (pattern # patterns) =
     (case find (\<lambda>col. col = pattern \<or> includes_str col pattern) (map normalizeHeader ks) of
        None \<Rightarrow> findColumn ks patterns
      | Some m \<Rightarrow>
          if m \<noteq> [] then find (\<lambda>k. normalizeHeader k = m) ks else findColumn ks patterns)"

record ColumnMapping =
  date_col :: "string option"
  accountNumber_col :: "string option"
  accountName_col :: "string option"
  amount_col :: "string option"
  description_col :: "string option"
  reference_col :: "string option"
  vendor_col :: "string option"

definition detectMapping :: "string list \<Rightarrow> ColumnMapping" where
  "detectMapping ks =
     \<lparr> date_col = findColumn ks columnPatterns_date,
       accountNumber_col = findColumn ks columnPatterns_accountNumber,
       accountName_col = findColumn ks columnPatterns_accountName,
       amount_col = findColumn ks columnPatterns_amount,
       description_col = findColumn ks columnPatterns_description,
       reference_col = findColumn ks columnPatterns_reference,
       vendor_col = findColumn ks columnPatterns_vendor \<rparr>"

text \<open>
  \<open>mappedCell m row\<close> is the cell \<open>row[m]\<close> when the mapping entry m is truthy (a
  key that is not the empty string).
\<close>

definition mappedCell :: "string option \<Rightarrow> rawRecord \<Rightarrow> cell option" where
  "mappedCell m row =
     (case m of None \<Rightarrow> None | Some k \<Rightarrow> if k \<noteq> [] then Some (property row k) else None)"

definition parseRecord :: "builtins \<Rightarrow> ColumnMapping \<Rightarrow> nat \<Rightarrow> rawRecord \<Rightarrow> string \<Rightarrow> Transaction" where
  "parseRecord b mapping index row newId =
     \<lparr> id_txn = newId,
       date = (case mappedCell (date_col mapping) row of
                 Some c \<Rightarrow> stringOrEmpty b c | None \<Rightarrow> ''''),
       accountNumber = (case mappedCell (accountNumber_col mapping) row of
                          Some c \<Rightarrow> stringOrEmpty b c | None \<Rightarrow> ''''),
       accountName = (case mappedCell (accountName_col mapping) row of
                        Some c \<Rightarrow> stringOrEmpty b c | None \<Rightarrow> ''''),
       description = (case mappedCell (description_col mapping) row of
                        Some c \<Rightarrow> stringOrEmpty b c | None \<Rightarrow> ''''),
       amount = (case mappedCell (amount_col mapping) row of
                   Some c \<Rightarrow> parseAmount c | None \<Rightarrow> 0),
       reference = (case mappedCell (reference_col mapping) row of
                      Some c \<Rightarrow> Some (stringOrEmpty b c) | None \<Rightarrow> None),
       vendor = (case mappedCell (vendor_col mapping) row of
                   Some c \<Rightarrow> Some (stringOrEmpty b c) | None \<Rightarrow> None),
       extra = [(''_rowIndex'', CNum (real (index + 1)))] \<rparr>"

text \<open>\<open>data.map((row, index) => ...)\<close>, one fresh id per record, left to right.\<close>

fun parseRecords :: "builtins \<Rightarrow> ColumnMapping \<Rightarrow> nat \<Rightarrow> rawRecord list \<Rightarrow> world
    \<Rightarrow> Transaction list \<times> world" where
  "parseRecords b mapping index [] w = ([], w)"
| "parseRecords b mapping index (row # rows) w =
     (case parseRecords b mapping (index + 1) rows (snd (generateId w)) of
        (out, w') \<Rightarrow> (parseRecord b mapping index row (fst (generateId w)) # out, w'))"

definition parseRawData :: "builtins \<Rightarrow> rawRecord list \<Rightarrow> world \<Rightarrow> Transaction list \<times> world" where
  "parseRawData b data w =
     (case data of
        [] \<Rightarrow> ([], w)
      | sampleRow # _ \<Rightarrow> parseRecords b (detectMapping (map fst sampleRow)) 0 data w)"

text \<open>
  A Transaction built by one of the parsers, read again as a raw record: its properties
  in the order in which the object literal creates them. An absent reference or vendor
  is a property whose value is \<open>undefined\<close>.
\<close>

definition asRecord :: "Transaction \<Rightarrow> rawRecord" where
  "asRecord t =
     [(''id'', CStr (id_txn t)), (''date'', CStr (date t)),
      (''accountNumber'', CStr (accountNumber t)), (''accountName'', CStr (accountName t)),
      (''description'', CStr (description t)), (''amount'', CNum (amount t)),
      (''reference'', case reference t of None \<Rightarrow> CUndefined | Some r \<Rightarrow> CStr r),
      (''vendor'', case vendor t of None \<Rightarrow> CUndefined | Some v \<Rightarrow> CStr v)] @ extra t"

text \<open>The keys of a Transaction that parseRawData built.\<close>

definition outputKeys :: "string list" where
  "outputKeys = [''id'', ''date'', ''accountNumber'', ''accountName'', ''description'', ''amount'',
                 ''reference'', ''vendor'', ''_rowIndex'']"

text \<open>
  What a second pass of the column mapper makes of the transactions of a first pass:
  the account name is taken from the description, an absent reference or vendor becomes
  the empty string, the id is drawn afresh.
\<close>

fun reparsed :: "Transaction list \<Rightarrow> world \<Rightarrow> Transaction list" where
  "reparsed [] w = []"
| "reparsed (t # ts) w =
     t\<lparr> id_txn := fst (generateId w),
        accountName := description t,
        reference := Some (case reference t of None \<Rightarrow> '''' | Some r \<Rightarrow> r),
        vendor := Some (case vendor t of None \<Rightarrow> '''' | Some v \<Rightarrow> v) \<rparr>
     # reparsed ts (snd (generateId w))"

subsection \<open>Sample data\<close>

text \<open>
  The scenario of the specification: account CITY PARK MAINT with amounts 20000, 12000
  and 5000, account ADMIN with 100000, keyword PARK, threshold 15000, scope 11000 and
  two samples per account.
\<close>

definition sampleTxn :: "string \<Rightarrow> string \<Rightarrow> real \<Rightarrow> Transaction" where
  "sampleTxn i name a =
     \<lparr> id_txn = i, date = ''2024-01-31'', accountNumber = '''', accountName = name,
       description = '''', amount = a, reference = None, vendor = None, extra = [] \<rparr>"

definition sampleTransactions :: "Transaction list" where
  "sampleTransactions =
     [sampleTxn ''t1'' ''CITY PARK MAINT'' 5000, sampleTxn ''t2'' ''ADMIN'' 100000,
      sampleTxn ''t3'' ''CITY PARK MAINT'' (- 20000), sampleTxn ''t4'' ''CITY PARK MAINT'' 12000]"

definition sampleConfig :: SamplingConfig where
  "sampleConfig =
     \<lparr> tolerableMisstatement = 15000, testingScope = 11000, targetKeywords = [''PARK''],
       sampleSize = 2 \<rparr>"

definition sampleGroup :: AccountGroup where
  "sampleGroup =
     \<lparr> groupAccountName = ''CITY PARK MAINT'', groupAccountNumber = '''',
       transactions = [sampleTxn ''t1'' ''CITY PARK MAINT'' 5000,
                       sampleTxn ''t3'' ''CITY PARK MAINT'' (- 20000),
                       sampleTxn ''t4'' ''CITY PARK MAINT'' 12000],
       totalBalance = 37000, transactionCount = 3 \<rparr>"

text \<open>Account names that are numeric codes, as ledgers often have them.\<close>

definition numericNameTransactions :: "Transaction list" where
  "numericNameTransactions =
     [sampleTxn ''t1'' ''Rent'' 100, sampleTxn ''t2'' ''6010'' 250, sampleTxn ''t3'' ''Rent'' 40,
      sampleTxn ''t4'' ''45'' 7]"

text \<open>A world whose ids are the tag followed by a growing run of the letter x.\<close>

definition sampleWorld :: "string \<Rightarrow> world" where
  "sampleWorld tag = \<lparr> idSupply = (\<lambda>n. tag @ replicate n CHR ''x''), idsDrawn = 0, console = [] \<rparr>"

text \<open>
  A sample environment, run on whole numbers only: a number prints as its integer part
  in decimal, a serial date as the word day and the serial number.
\<close>

fun showNat :: "nat \<Rightarrow> string" where
  "showNat n =
     (if n < 10 then [''0123456789'' ! n]
      else showNat (n div 10) @ [''0123456789'' ! (n mod 10)])"

declare showNat.simps [simp del]

definition sampleBuiltins :: builtins where
  "sampleBuiltins =
     \<lparr> numberToString = (\<lambda>x. (if x < 0 then ''-'' else '''') @ showNat (nat \<lfloor>\<bar>x\<bar>\<rfloor>)),
       excelDateString = (\<lambda>x. ''day '' @ showNat (nat \<lfloor>x\<rfloor>)) \<rparr>"

text \<open>
  A hierarchical ledger of seven rows: a title, the header row, the banner of the
  account Utilities, three transaction rows (300, a refund of 50 in parentheses, and a
  zero amount) and the total row.
\<close>

definition sampleGrid :: "cell list list" where
  "sampleGrid =
     [[CStr ''General Ledger''],
      [CNull, CStr ''Date'', CStr ''Num'', CStr ''Name'', CStr ''Memo'', CStr ''Amount'', CStr ''Balance''],
      [CStr ''Utilities''],
      [CNull, CStr ''01/05/2024'', CStr ''101'', CStr ''City Power'', CStr ''January'', CNum 300, CNum 300],
      [CNull, CStr ''01/09/2024'', CStr ''102'', CStr ''City Power'', CStr ''Refund'', CStr ''(50)'', CNum 250],
      [CNull, CStr ''01/10/2024'', CStr ''103'', CStr ''City Power'', CStr ''Void'', CStr ''$0.00'', CNum 250],
      [CStr ''Total for Utilities'', CNull, CNull, CNull, CNull, CNum 250]]"

text \<open>The same rows without the title and the header row.\<close>

definition headlessGrid :: "cell list list" where
  "headlessGrid = drop 2 sampleGrid"

text \<open>A flat file of one record.\<close>

definition flatData :: "rawRecord list" where
  "flatData =
     [[(''Date'', CStr ''2024-01-05''), (''Account'', CStr ''6010''),
       (''Account Name'', CStr ''Utilities''), (''Memo'', CStr ''January power''),
       (''Amount'', CStr ''$1,234.50'')]]"

section \<open>Properties\<close>

subsection \<open>Materiality is a strict threshold\<close>

text \<open>
  Claim C3. identifyMaterialAccounts keeps a group if and only if its totalBalance is
  strictly greater than the threshold, in the order of the input: a group whose balance
  equals the threshold is dropped, one above it is kept.
\<close>

theorem identifyMaterialAccounts_strict:
  "(g \<in> set (identifyMaterialAccounts groups tm) \<longleftrightarrow> g \<in> set groups \<and> tm < totalBalance g)
   \<and> identifyMaterialAccounts (g # groups) (totalBalance g) = identifyMaterialAccounts groups (totalBalance g)
   \<and> identifyMaterialAccounts [g\<lparr>totalBalance := tm + c\<rparr>] tm = (if 0 < c then [g\<lparr>totalBalance := tm + c\<rparr>] else [])
   \<and> subseq (identifyMaterialAccounts groups tm) groups"
  by (simp add: identifyMaterialAccounts_def)

theorem identifyMaterialAccounts_strict_witness:
  "identifyMaterialAccounts [sampleGroup, sampleGroup\<lparr>totalBalance := 15000\<rparr>] 15000 = [sampleGroup]"
  using identifyMaterialAccounts_strict [of sampleGroup "[sampleGroup, sampleGroup\<lparr>totalBalance := 15000\<rparr>]" 15000 0]
  by (simp add: identifyMaterialAccounts_def sampleGroup_def)


subsection \<open>Keyword filter\<close>

text \<open>
  Claim C7. If every keyword is blank, filterByKeywords returns its input. Otherwise it
  returns, in the order of the input, the transactions whose upper-cased accountName
  contains the upper-cased and trimmed form of some keyword that is not blank.
\<close>

theorem filterByKeywords_spec:
  "filterByKeywords txs keywords =
     (if \<forall>k\<in>set keywords. trim k = '''' then txs
      else filter (\<lambda>t. \<exists>k\<in>set keywords. trim k \<noteq> '''' \<and>
                     includes_str (toUpperCase (accountName t)) (trim (toUpperCase k))) txs)
   \<and> subseq (filterByKeywords txs keywords) txs"
  by (auto simp add: filterByKeywords_def Let_def filter_empty_conv list_ex_iff intro!: filter_cong)

theorem filterByKeywords_spec_witness:
  "filterByKeywords sampleTransactions ['' '', ''''] = sampleTransactions
   \<and> map id_txn (filterByKeywords sampleTransactions ['' '', '' park '', ''x'']) = [''t1'', ''t3'', ''t4'']"
  using filterByKeywords_spec [of sampleTransactions "['' '', '''']"]
    filterByKeywords_spec [of sampleTransactions "['' '', '' park '', ''x'']"]
  by (simp add: trim_def isWhiteSpace_def sampleTransactions_def sampleTxn_def toUpperCase_def toUpperChar_def
     upperLetters_def lowerLetters_def)


subsection \<open>Sample selector\<close>

lemma pushUpTo_eq:
  "pushUpTo n mk xs selected = selected @ map mk (take (nat (n - int (length selected))) xs)"
proof (induction xs arbitrary: selected)
  case Nil
  then show ?case by simp
next
  case (Cons x xs)
  show ?case
  proof (cases "int (length selected) \<ge> n")
    case True
    then show ?thesis by simp
  next
    case False
    then have "nat (n - int (length selected)) = Suc (nat (n - int (length (selected @ [mk x]))))"
      by simp
    with False Cons.IH [of "selected @ [mk x]"] show ?thesis
      by (simp del: length_append)
  qed
qed

lemma mkSample_simps:
  "id_txn (mkSample r g t) = id_txn t"
  "amount (mkSample r g t) = amount t"
  "selectionReason (mkSample r g t) = r"
  "Transaction.truncate (mkSample r g t) = t"
  by (simp_all add: mkSample_def Transaction.truncate_def)

lemma distinct_ids_orderByDesc:
  "distinct (map id_txn (orderByDesc key xs)) = distinct (map id_txn xs)"
  by (simp add: orderByDesc_def distinct_map)

lemma selectSamplesFromAccount_eq:
  assumes d: "distinct (map id_txn (transactions g))"
  shows "\<exists>over rest. selectSamplesFromAccount g config =
            map (mkSample OVER_SCOPE g) over @ map (mkSample HIGH_VALUE_KEY_ITEM g) rest
          \<and> int (length over + length rest) \<le> max 0 (sampleSize config)
          \<and> (\<forall>t\<in>set over. \<bar>amount t\<bar> > testingScope config)
          \<and> (\<forall>t\<in>set rest. \<bar>amount t\<bar> \<le> testingScope config)
          \<and> set over \<union> set rest \<subseteq> set (transactions g)
          \<and> distinct (map id_txn (over @ rest))"
proof -
  define n where "n = sampleSize config"
  define sorted where "sorted = orderByDesc (\<lambda>t. \<bar>amount t\<bar>) (transactions g)"
  define ov where "ov = filter (\<lambda>t. \<bar>amount t\<bar> > testingScope config) sorted"
  define sel1 where "sel1 = pushUpTo n (mkSample OVER_SCOPE g) ov []"
  define rem where "rem = filter (\<lambda>t. id_txn t \<notin> set (map id_txn sel1)) sorted"
  have ds: "distinct (map id_txn sorted)"
    using d by (simp add: sorted_def distinct_ids_orderByDesc)
  have ss: "set sorted = set (transactions g)"
    by (simp add: sorted_def orderByDesc_def)
  have sel1: "sel1 = map (mkSample OVER_SCOPE g) (take (nat n) ov)"
    by (simp add: sel1_def pushUpTo_eq)
  have res: "selectSamplesFromAccount g config =
      (if int (length sel1) < n then pushUpTo n (mkSample HIGH_VALUE_KEY_ITEM g) rem sel1 else sel1)"
    by (simp add: selectSamplesFromAccount_def Let_def n_def sorted_def ov_def sel1_def rem_def)
  show ?thesis
  proof (cases "int (length sel1) < n")
    case False
    have "distinct (map id_txn (take (nat n) ov))"
      using ds by (simp add: ov_def distinct_map_filter take_map [symmetric])
    moreover have "set (take (nat n) ov) \<subseteq> set ov" by (rule set_take_subset)
    ultimately show ?thesis
      using False res sel1 ss
      by (intro exI [of _ "take (nat n) ov"] exI [of _ "[]"]) (auto simp: n_def ov_def)
  next
    case True
    then have full: "take (nat n) ov = ov" using sel1 by simp
    have ids: "set (map id_txn sel1) = id_txn ` set ov"
      by (simp add: sel1 full mkSample_simps image_image)
    have inj: "inj_on id_txn (set sorted)" using ds by (simp add: distinct_map)
    have rem_eq: "rem = filter (\<lambda>t. \<not> \<bar>amount t\<bar> > testingScope config) sorted"
      unfolding rem_def ids
    proof (rule filter_cong [OF refl])
      fix t assume t: "t \<in> set sorted"
      show "(id_txn t \<notin> id_txn ` set ov) = (\<not> testingScope config < \<bar>amount t\<bar>)"
        using t inj by (auto simp: ov_def inj_on_def)
    qed
    define m where "m = nat (n - int (length sel1))"
    have out: "selectSamplesFromAccount g config =
        map (mkSample OVER_SCOPE g) ov @ map (mkSample HIGH_VALUE_KEY_ITEM g) (take m rem)"
      using True res by (simp add: pushUpTo_eq m_def) (simp add: sel1 full)
    have len: "int (length ov + length (take m rem)) \<le> max 0 n"
      using True by (simp add: m_def sel1 full)
    have sub: "set (take m rem) \<subseteq> set rem" by (rule set_take_subset)
    have dist: "distinct (map id_txn (ov @ take m rem))"
    proof -
      have "distinct (map id_txn ov @ map id_txn rem)"
        using ds inj unfolding rem_eq ov_def
        by (auto simp: distinct_map_filter inj_on_def)
      then have "distinct (map id_txn ov) \<and> distinct (take m (map id_txn rem))
          \<and> set (map id_txn ov) \<inter> set (take m (map id_txn rem)) = {}"
        using set_take_subset [of m "map id_txn rem"] distinct_take [of "map id_txn rem" m]
        by (simp only: distinct_append) blast
      then show ?thesis by (simp add: take_map)
    qed
    show ?thesis
      using out len sub dist ss
      by (intro exI [of _ ov] exI [of _ "take m rem"]) (auto simp: n_def ov_def rem_eq)
  qed
qed

text \<open>
  Claim C1. For an account group whose transactions carry pairwise distinct ids,
  selectSamplesFromAccount returns at most sampleSize samples, and none when sampleSize
  is not positive; every sample is a transaction of the group; a sample tagged
  OVER_SCOPE has an absolute amount above testingScope and a sample tagged
  HIGH_VALUE_KEY_ITEM has one at most testingScope; no id occurs twice among the samples.
\<close>

theorem selectSamplesFromAccount_bounded:
  assumes "distinct (map id_txn (transactions g))"
  shows "int (length (selectSamplesFromAccount g config)) \<le> max 0 (sampleSize config)
    \<and> (sampleSize config \<le> 0 \<longrightarrow> selectSamplesFromAccount g config = [])
    \<and> (\<forall>s\<in>set (selectSamplesFromAccount g config).
          Transaction.truncate s \<in> set (transactions g)
          \<and> (selectionReason s = OVER_SCOPE \<longrightarrow> \<bar>amount s\<bar> > testingScope config)
          \<and> (selectionReason s = HIGH_VALUE_KEY_ITEM \<longrightarrow> \<bar>amount s\<bar> \<le> testingScope config))
    \<and> distinct (map id_txn (selectSamplesFromAccount g config))"
proof -
  from selectSamplesFromAccount_eq [OF assms, of config]
  obtain over rest where
    eq: "selectSamplesFromAccount g config =
            map (mkSample OVER_SCOPE g) over @ map (mkSample HIGH_VALUE_KEY_ITEM g) rest"
    and len: "int (length over + length rest) \<le> max 0 (sampleSize config)"
    and ov: "\<forall>t\<in>set over. \<bar>amount t\<bar> > testingScope config"
    and rs: "\<forall>t\<in>set rest. \<bar>amount t\<bar> \<le> testingScope config"
    and sub: "set over \<union> set rest \<subseteq> set (transactions g)"
    and dist: "distinct (map id_txn (over @ rest))"
    by blast
  have 1: "int (length (selectSamplesFromAccount g config)) \<le> max 0 (sampleSize config)"
    using len by (simp add: eq)
  then have 2: "sampleSize config \<le> 0 \<longrightarrow> selectSamplesFromAccount g config = []"
    by auto
  have 3: "\<forall>s\<in>set (selectSamplesFromAccount g config).
          Transaction.truncate s \<in> set (transactions g)
          \<and> (selectionReason s = OVER_SCOPE \<longrightarrow> \<bar>amount s\<bar> > testingScope config)
          \<and> (selectionReason s = HIGH_VALUE_KEY_ITEM \<longrightarrow> \<bar>amount s\<bar> \<le> testingScope config)"
    using ov rs sub by (auto simp: eq mkSample_simps)
  have 4: "distinct (map id_txn (selectSamplesFromAccount g config))"
    using dist by (simp add: eq mkSample_simps o_def)
  from 1 2 3 4 show ?thesis by blast
qed

theorem selectSamplesFromAccount_bounded_witness:
  "distinct (map id_txn (transactions sampleGroup))
   \<and> map (\<lambda>s. (id_txn s, selectionReason s, amount s)) (selectSamplesFromAccount sampleGroup sampleConfig)
       = [(''t3'', OVER_SCOPE, - 20000), (''t4'', OVER_SCOPE, 12000)]
   \<and> map (\<lambda>s. (id_txn s, selectionReason s, amount s))
         (selectSamplesFromAccount sampleGroup (sampleConfig\<lparr>sampleSize := 3\<rparr>))
       = [(''t3'', OVER_SCOPE, - 20000), (''t4'', OVER_SCOPE, 12000), (''t1'', HIGH_VALUE_KEY_ITEM, 5000)]"
proof -
  have d: "distinct (map id_txn (transactions sampleGroup))"
    by (simp add: sampleGroup_def sampleTxn_def)
  note selectSamplesFromAccount_bounded [OF d, of sampleConfig]
    selectSamplesFromAccount_bounded [OF d, of "sampleConfig\<lparr>sampleSize := 3\<rparr>"]
  then show ?thesis
    using d
    by (simp add: selectSamplesFromAccount_def sampleGroup_def sampleConfig_def sampleTxn_def
          orderByDesc_def mkSample_def Let_def)
qed

subsection \<open>Account aggregator\<close>

lemma map_fst_groupBy_add:
  "map fst (groupBy_add k v acc) = (if k \<in> set (map fst acc) then map fst acc else map fst acc @ [k])"
  by (induction acc) force+

lemma distinct_groupBy_add:
  "distinct (map fst acc) \<Longrightarrow> distinct (map fst (groupBy_add k v acc))"
  by (simp add: map_fst_groupBy_add)

lemma map_of_groupBy_add:
  "map_of (groupBy_add k v acc) k' =
     (if k' = k then Some ((case map_of acc k of None \<Rightarrow> [] | Some vs \<Rightarrow> vs) @ [v]) else map_of acc k')"
  by (induction acc) auto

lemma firstSeen_snoc:
  "firstSeen (xs @ [x]) = (if x \<in> set xs then firstSeen xs else firstSeen xs @ [x])"
  by (simp add: firstSeen_def)

lemma set_firstSeen [simp]: "set (firstSeen xs) = set xs"
  by (simp add: firstSeen_def)

lemma filter_key_absent: "k \<notin> f ` set xs \<Longrightarrow> filter (\<lambda>x. f x = k) xs = []"
  by (auto simp: filter_empty_conv)

lemma groupBy_foldl:
  "map fst (foldl (\<lambda>acc x. groupBy_add (f x) x acc) [] xs) = firstSeen (map f xs)
   \<and> (\<forall>k. map_of (foldl (\<lambda>acc x. groupBy_add (f x) x acc) [] xs) k =
          (if k \<in> f ` set xs then Some (filter (\<lambda>x. f x = k) xs) else None))"
proof (induction xs rule: rev_induct)
  case Nil
  then show ?case by (simp add: firstSeen_def)
next
  case (snoc x xs)
  then show ?case
    by (auto simp: map_fst_groupBy_add firstSeen_snoc map_of_groupBy_add filter_key_absent)
qed

lemma groupBy_keys: "map fst (groupBy f xs) = firstSeen (map f xs)"
  by (simp add: groupBy_def groupBy_foldl)

lemma groupBy_lookup:
  "map_of (groupBy f xs) k = (if k \<in> f ` set xs then Some (filter (\<lambda>x. f x = k) xs) else None)"
  by (simp add: groupBy_def groupBy_foldl)

lemma distinct_firstSeen [simp]: "distinct (firstSeen xs)"
  by (simp add: firstSeen_def)

lemma groupBy_entry:
  assumes "(k, vs) \<in> set (groupBy f xs)"
  shows "vs = filter (\<lambda>x. f x = k) xs \<and> k \<in> f ` set xs"
proof -
  have "distinct (map fst (groupBy f xs))" by (simp add: groupBy_keys)
  with assms have "map_of (groupBy f xs) k = Some vs" by simp
  then show ?thesis by (simp add: groupBy_lookup split: if_splits)
qed

lemma set_Object_entries [simp]: "set (Object_entries props) = set props"
  by (auto simp: Object_entries_def)

lemma distinct_keys_Object_entries:
  "distinct (map fst props) \<Longrightarrow> distinct (map fst (Object_entries props))"
  by (auto simp: Object_entries_def distinct_map distinct_map_filter inj_on_def)

lemma sumBy_sum_list: "sumBy f xs = sum_list (map f xs)"
proof -
  have "foldl (\<lambda>acc x. acc + f x) a xs = a + sum_list (map f xs)" for a
    by (induction xs arbitrary: a) (simp_all add: add.assoc)
  from this [of 0] show ?thesis by (simp add: sumBy_def)
qed

text \<open>
  Claim C2. In the result of groupByAccount every group holds exactly the input
  transactions whose accountName equals the group's accountName (a case-sensitive
  comparison of strings), in the order of the input; its totalBalance is the sum of
  the absolute amounts of these transactions and its transactionCount their number.
  No two groups share a name and the names of the groups are the account names of the
  input, so every input transaction lies in exactly one group.
\<close>

theorem groupByAccount_partition:
  "(\<forall>g\<in>set (groupByAccount txs).
       transactions g = filter (\<lambda>t. accountName t = groupAccountName g) txs
       \<and> transactions g \<noteq> []
       \<and> totalBalance g = sum_list (map (\<lambda>t. \<bar>amount t\<bar>) (transactions g))
       \<and> transactionCount g = length (transactions g))
   \<and> distinct (map groupAccountName (groupByAccount txs))
   \<and> set (map groupAccountName (groupByAccount txs)) = accountName ` set txs"
proof -
  let ?props = "groupBy accountName txs"
  have names: "map groupAccountName (groupByAccount txs) = map fst (Object_entries ?props)"
    by (simp add: groupByAccount_def split_def o_def)
  have dk: "distinct (map fst ?props)" by (simp add: groupBy_keys)
  have 1: "\<forall>g\<in>set (groupByAccount txs).
       transactions g = filter (\<lambda>t. accountName t = groupAccountName g) txs
       \<and> transactions g \<noteq> []
       \<and> totalBalance g = sum_list (map (\<lambda>t. \<bar>amount t\<bar>) (transactions g))
       \<and> transactionCount g = length (transactions g)"
  proof
    fix g assume "g \<in> set (groupByAccount txs)"
    then obtain k vs where kv: "(k, vs) \<in> set ?props"
      and g: "g = \<lparr> groupAccountName = k,
              groupAccountNumber = (case vs of [] \<Rightarrow> '''' | t # _ \<Rightarrow> accountNumber t),
              transactions = vs, totalBalance = sumBy (\<lambda>t. \<bar>amount t\<bar>) vs,
              transactionCount = length vs \<rparr>"
      by (auto simp: groupByAccount_def)
    from groupBy_entry [OF kv] have vs: "vs = filter (\<lambda>x. accountName x = k) txs"
      and k: "k \<in> accountName ` set txs" by simp_all
    from k have "filter (\<lambda>x. accountName x = k) txs \<noteq> []"
      by (auto simp: filter_empty_conv)
    with vs show "transactions g = filter (\<lambda>t. accountName t = groupAccountName g) txs
       \<and> transactions g \<noteq> []
       \<and> totalBalance g = sum_list (map (\<lambda>t. \<bar>amount t\<bar>) (transactions g))
       \<and> transactionCount g = length (transactions g)"
      by (simp add: g sumBy_sum_list)
  qed
  have 2: "distinct (map groupAccountName (groupByAccount txs))"
    unfolding names using dk by (rule distinct_keys_Object_entries)
  have "set (map fst (Object_entries ?props)) = set (map fst ?props)"
    by simp
  then have 3: "set (map groupAccountName (groupByAccount txs)) = accountName ` set txs"
    unfolding names by (simp add: groupBy_keys)
  from 1 2 3 show ?thesis by blast
qed

theorem groupByAccount_partition_witness:
  "map (\<lambda>g. (groupAccountName g, map id_txn (transactions g), totalBalance g, transactionCount g))
     (groupByAccount sampleTransactions)
   = [(''CITY PARK MAINT'', [''t1'', ''t3'', ''t4''], 37000, 3), (''ADMIN'', [''t2''], 100000, 1)]"
  using groupByAccount_partition [of sampleTransactions]
  by (simp add: groupByAccount_def groupBy_def Object_entries_def sampleTransactions_def sampleTxn_def
        isArrayIndex_def isDigit_def digitValue_def sumBy_def)

lemma map_insort_key_fst:
  "map fst (insort_key (\<lambda>p. h (fst p)) x xs) = insort_key h (fst x) (map fst xs)"
  by (induction xs) auto

lemma map_sort_key_fst:
  "map fst (sort_key (\<lambda>p. h (fst p)) xs) = sort_key h (map fst xs)"
  by (induction xs) (auto simp: map_insort_key_fst)

lemma keys_Object_entries:
  "map fst (Object_entries props) =
     sort_key digitsValue (filter isArrayIndex (map fst props))
       @ filter (\<lambda>k. \<not> isArrayIndex k) (map fst props)"
  by (simp add: Object_entries_def map_sort_key_fst filter_map o_def)

text \<open>
  Claim C5, as stated, fails: the groups come out of \<open>Object.entries\<close>, which lists
  the keys that are array indices first. With the account names Rent, 6010, Rent, 45 the
  groups are 45, 6010, Rent, while the first-seen order is Rent, 6010, 45.
\<close>

theorem groupByAccount_order_counterexample:
  "map groupAccountName (groupByAccount numericNameTransactions) = [''45'', ''6010'', ''Rent'']
   \<and> firstSeen (map accountName numericNameTransactions) = [''Rent'', ''6010'', ''45'']"
  by (simp add: groupByAccount_def groupBy_def Object_entries_def numericNameTransactions_def sampleTxn_def
        isArrayIndex_def isDigit_def digitValue_def digitsValue_def firstSeen_def)

text \<open>
  Claim C5, amended. The groups returned by groupByAccount list first the distinct
  account names that are array indices (canonical decimal integers below 2^32 - 1), in
  ascending numeric order, and then the other distinct account names in first-seen
  order. When no account name is an array index the groups are in first-seen order.
\<close>

theorem groupByAccount_order:
  "map groupAccountName (groupByAccount txs) =
     sort_key digitsValue (filter isArrayIndex (firstSeen (map accountName txs)))
       @ filter (\<lambda>k. \<not> isArrayIndex k) (firstSeen (map accountName txs))
   \<and> ((\<forall>t\<in>set txs. \<not> isArrayIndex (accountName t)) \<longrightarrow>
        map groupAccountName (groupByAccount txs) = firstSeen (map accountName txs))"
proof -
  have names: "map groupAccountName (groupByAccount txs) = map fst (Object_entries (groupBy accountName txs))"
    by (simp add: groupByAccount_def split_def o_def)
  have 1: "map groupAccountName (groupByAccount txs) =
     sort_key digitsValue (filter isArrayIndex (firstSeen (map accountName txs)))
       @ filter (\<lambda>k. \<not> isArrayIndex k) (firstSeen (map accountName txs))"
    by (simp add: names keys_Object_entries groupBy_keys)
  have 2: "map groupAccountName (groupByAccount txs) = firstSeen (map accountName txs)"
    if "\<forall>t\<in>set txs. \<not> isArrayIndex (accountName t)"
  proof -
    from that have "\<forall>k\<in>set (firstSeen (map accountName txs)). \<not> isArrayIndex k" by auto
    then have "filter isArrayIndex (firstSeen (map accountName txs)) = []"
      and "filter (\<lambda>k. \<not> isArrayIndex k) (firstSeen (map accountName txs)) = firstSeen (map accountName txs)"
      by (simp_all add: filter_empty_conv)
    with 1 show ?thesis by simp
  qed
  from 1 2 show ?thesis by blast
qed

theorem groupByAccount_order_witness:
  "list_all (\<lambda>t. \<not> isArrayIndex (accountName t)) sampleTransactions
   \<and> map groupAccountName (groupByAccount sampleTransactions) = [''CITY PARK MAINT'', ''ADMIN'']"
proof -
  have h: "\<forall>t\<in>set sampleTransactions. \<not> isArrayIndex (accountName t)"
    by (simp add: sampleTransactions_def sampleTxn_def isArrayIndex_def isDigit_def digitValue_def)
  from groupByAccount_order [of sampleTransactions] h
  have "map groupAccountName (groupByAccount sampleTransactions) = firstSeen (map accountName sampleTransactions)"
    by blast
  also have "\<dots> = [''CITY PARK MAINT'', ''ADMIN'']"
    by (simp add: firstSeen_def sampleTransactions_def sampleTxn_def)
  finally show ?thesis using h by (simp add: list_all_iff)
qed

subsection \<open>Sampling orchestrator\<close>

lemma backfillIds_present:
  "\<forall>t\<in>set txs. id_txn t \<noteq> '''' \<Longrightarrow> backfillIds txs w = (txs, w)"
  by (induction txs) auto

text \<open>
  Claim C4. When every transaction carries a non-empty id, the result of performSampling
  does not depend on the world: two calls with the same transactions and configuration
  return the same SamplingResults whatever the clock and the random source are, and no
  id is drawn.
\<close>

theorem performSampling_deterministic:
  assumes "\<forall>t\<in>set txs. id_txn t \<noteq> ''''"
  shows "fst (performSampling txs config w1) = fst (performSampling txs config w2)
    \<and> snd (performSampling txs config w1) = w1"
  using assms by (simp add: performSampling_def backfillIds_present Let_def)

theorem performSampling_deterministic_witness:
  "list_all (\<lambda>t. id_txn t \<noteq> '''') sampleTransactions
   \<and> fst (performSampling sampleTransactions sampleConfig (sampleWorld ''a''))
     = fst (performSampling sampleTransactions sampleConfig (sampleWorld ''b''))
   \<and> map (\<lambda>s. (id_txn s, selectionReason s)) (samples (fst (performSampling sampleTransactions sampleConfig (sampleWorld ''a''))))
     = [(''t3'', OVER_SCOPE), (''t4'', OVER_SCOPE)]"
proof -
  have h: "\<forall>t\<in>set sampleTransactions. id_txn t \<noteq> ''''"
    by (simp add: sampleTransactions_def sampleTxn_def)
  have "map (\<lambda>s. (id_txn s, selectionReason s)) (samples (fst (performSampling sampleTransactions sampleConfig (sampleWorld ''a''))))
     = [(''t3'', OVER_SCOPE), (''t4'', OVER_SCOPE)]"
    by code_simp
  with performSampling_deterministic [OF h, of sampleConfig "sampleWorld ''a''" "sampleWorld ''b''"] h
  show ?thesis by (simp add: list_all_iff)
qed

subsection \<open>Hierarchical ledgers\<close>

text \<open>
  Claim C10. detectHierarchicalGLFormat returns false for every grid of fewer than 10
  rows, whatever its content: also for a grid with a qualifying header row and an account
  banner row that is followed by a row with a blank first column.
\<close>

theorem detectHierarchicalGLFormat_short:
  "length rawData < 10 \<Longrightarrow> \<not> detectHierarchicalGLFormat b rawData"
  by (simp add: detectHierarchicalGLFormat_def)

theorem detectHierarchicalGLFormat_short_witness:
  "length sampleGrid < 10 \<and> isHeaderRow sampleBuiltins (sampleGrid ! 1) \<and> accountRowAt sampleGrid 2
   \<and> \<not> detectHierarchicalGLFormat sampleBuiltins sampleGrid
   \<and> detectHierarchicalGLFormat sampleBuiltins (sampleGrid @ [[], [], []])"
proof -
  have l: "length sampleGrid < 10" by (simp add: sampleGrid_def)
  have "isHeaderRow sampleBuiltins (sampleGrid ! 1)" by code_simp
  moreover have "accountRowAt sampleGrid 2" by code_simp
  moreover have "detectHierarchicalGLFormat sampleBuiltins (sampleGrid @ [[], [], []])" by code_simp
  ultimately show ?thesis
    using l detectHierarchicalGLFormat_short [OF l, of sampleBuiltins] by blast
qed

text \<open>
  Claim C9. If none of the first 10 rows of the grid is a header row (its lower-cased
  cell texts, joined, contain "date" and one of "amount" and "balance"),
  parseHierarchicalGL returns the empty list of transactions and writes one warning
  with \<open>console.warn\<close>. The model has no error value: every operation of the
  source is defined on every grid, so nothing is thrown.
\<close>

theorem parseHierarchicalGL_no_header:
  assumes "\<forall>i < min 10 (length rawData). \<not> isHeaderRow b (rawData ! i)"
  shows "parseHierarchicalGL b rawData w
    = ([], w\<lparr>console := console w @ [''Could not find header row in hierarchical GL'']\<rparr>)"
proof -
  from assms have "findHeaderRow b rawData = None"
    by (simp add: findHeaderRow_def find_None_iff)
  then show ?thesis
    by (simp add: parseHierarchicalGL_def console_warn_def)
qed

theorem parseHierarchicalGL_no_header_witness:
  "list_all (\<lambda>i. \<not> isHeaderRow sampleBuiltins (headlessGrid ! i)) [0 ..< min 10 (length headlessGrid)]
   \<and> fst (parseHierarchicalGL sampleBuiltins headlessGrid (sampleWorld ''id'')) = []
   \<and> console (snd (parseHierarchicalGL sampleBuiltins headlessGrid (sampleWorld ''id'')))
       = [''Could not find header row in hierarchical GL'']"
proof -
  have l: "list_all (\<lambda>i. \<not> isHeaderRow sampleBuiltins (headlessGrid ! i)) [0 ..< min 10 (length headlessGrid)]"
    by code_simp
  then have h: "\<forall>i < min 10 (length headlessGrid). \<not> isHeaderRow sampleBuiltins (headlessGrid ! i)"
    by (simp add: list_all_iff)
  from parseHierarchicalGL_no_header [OF h, of "sampleWorld ''id''"] l
  show ?thesis by (simp add: sampleWorld_def)
qed

lemma processRow_pushed:
  assumes "processRow b cols i row cur w = (Some t, cur', w')"
  shows "extra t = [(''_rowIndex'', CNum (real (i + 1)))]
    \<and> amount t = parseAmount (colCell (amountColIdx cols) row CNull) \<and> amount t \<noteq> 0"
  using assms
  by (auto simp: processRow_def processDataRow_def Let_def split: cell.splits if_splits)

lemma processRows_pushed:
  assumes "t \<in> set (fst (processRows b cols i rows cur w))"
  shows "\<exists>j < length rows. extra t = [(''_rowIndex'', CNum (real (i + j + 1)))]
    \<and> amount t = parseAmount (colCell (amountColIdx cols) (rows ! j) CNull) \<and> amount t \<noteq> 0"
  using assms
proof (induction rows arbitrary: i cur w)
  case Nil
  then show ?case by simp
next
  case (Cons row rows)
  obtain pushed cur' w' where step: "processRow b cols i row cur w = (pushed, cur', w')"
    by (cases "processRow b cols i row cur w") auto
  obtain out w'' where rest: "processRows b cols (i + 1) rows cur' w' = (out, w'')"
    by (cases "processRows b cols (i + 1) rows cur' w'") auto
  from Cons.prems step rest have "pushed = Some t \<or> t \<in> set out"
    by (auto split: option.splits)
  then show ?case
  proof
    assume "pushed = Some t"
    with step processRow_pushed [of b cols i row cur w t cur' w'] show ?thesis
      by (intro exI [of _ 0]) simp
  next
    assume "t \<in> set out"
    with rest have "t \<in> set (fst (processRows b cols (i + 1) rows cur' w'))" by simp
    from Cons.IH [OF this] obtain j where "j < length rows"
      "extra t = [(''_rowIndex'', CNum (real (i + 1 + j + 1)))]"
      "amount t = parseAmount (colCell (amountColIdx cols) (rows ! j) CNull)" "amount t \<noteq> 0"
      by blast
    then show ?thesis
      by (intro exI [of _ "Suc j"]) (simp add: add.commute add.left_commute)
  qed
qed

lemma stripCurrency_set: "CHR ''$'' \<notin> set (stripCurrency s) \<and> CHR '','' \<notin> set (stripCurrency s)"
  by (auto simp: stripCurrency_def)

lemma replaceParen_whole:
  "v \<noteq> [] \<Longrightarrow> CHR '')'' \<notin> set v \<Longrightarrow> replaceParen (CHR ''('' # v @ '')'') = CHR ''-'' # v"
  by (simp add: takeWhile_append dropWhile_append takeWhile_eq_all_conv[THEN iffD2] dropWhile_eq_Nil_conv[THEN iffD2])

text \<open>
  Claim C8. In parseHierarchicalGL the amount of a numeric cell is the number itself;
  the amount of a string cell is read by parseFloat after the dollar signs and commas
  are removed and a parenthesized text has become that text with a minus sign in front,
  and is 0 when parseFloat fails; so "$1,234.50" gives 1234.50 and "(500)" gives -500.
  Every transaction of the output comes from a row below the header row, carries the
  amount parsed from that row's amount cell, and that amount is not 0: a row whose
  parsed amount is 0 produces no transaction.
\<close>

theorem parseHierarchicalGL_amounts:
  assumes "findHeaderRow b rawData = Some h"
  shows "parseAmount (CNum x) = x
    \<and> parseAmount (CStr s) =
        (case parseFloat (trim (replaceParen (stripCurrency s))) of None \<Rightarrow> 0 | Some v \<Rightarrow> v)
    \<and> CHR ''$'' \<notin> set (stripCurrency s) \<and> CHR '','' \<notin> set (stripCurrency s)
    \<and> (v \<noteq> [] \<and> CHR '')'' \<notin> set v \<longrightarrow> replaceParen (CHR ''('' # v @ '')'') = CHR ''-'' # v)
    \<and> parseAmount (CStr ''$1,234.50'') = 1234.5
    \<and> parseAmount (CStr ''(500)'') = - 500
    \<and> (\<forall>t\<in>set (fst (parseHierarchicalGL b rawData w)).
          \<exists>i. h < i \<and> i < length rawData
            \<and> extra t = [(''_rowIndex'', CNum (real (i + 1)))]
            \<and> amount t = parseAmount (colCell (amountColIdx (resolveColumns (headerNames b (rawData ! h))))
                                         (rawData ! i) CNull)
            \<and> amount t \<noteq> 0)
    \<and> (\<forall>i. parseAmount (colCell (amountColIdx (resolveColumns (headerNames b (rawData ! h))))
                            (rawData ! i) CNull) = 0
          \<longrightarrow> (\<forall>t\<in>set (fst (parseHierarchicalGL b rawData w)).
                 extra t \<noteq> [(''_rowIndex'', CNum (real (i + 1)))]))"
proof -
  let ?cols = "resolveColumns (headerNames b (rawData ! h))"
  let ?out = "fst (parseHierarchicalGL b rawData w)"
  have out: "?out = fst (processRows b ?cols (h + 1) (drop (h + 1) rawData) '''' w)"
    using assms by (simp add: parseHierarchicalGL_def)
  have rows: "\<exists>i. h < i \<and> i < length rawData
            \<and> extra t = [(''_rowIndex'', CNum (real (i + 1)))]
            \<and> amount t = parseAmount (colCell (amountColIdx ?cols) (rawData ! i) CNull)
            \<and> amount t \<noteq> 0" if "t \<in> set ?out" for t
  proof -
    from that out processRows_pushed [of t b ?cols "h + 1" "drop (h + 1) rawData" "''''" w]
    obtain j where j: "j < length (drop (h + 1) rawData)"
      "extra t = [(''_rowIndex'', CNum (real (h + 1 + j + 1)))]"
      "amount t = parseAmount (colCell (amountColIdx ?cols) (drop (h + 1) rawData ! j) CNull)"
      "amount t \<noteq> 0"
      by auto
    from j(1) have "h + 1 + j < length rawData" by simp
    with j show ?thesis
      by (intro exI [of _ "h + 1 + j"]) simp
  qed
  have 1: "\<forall>t\<in>set ?out. \<exists>i. h < i \<and> i < length rawData
            \<and> extra t = [(''_rowIndex'', CNum (real (i + 1)))]
            \<and> amount t = parseAmount (colCell (amountColIdx ?cols) (rawData ! i) CNull)
            \<and> amount t \<noteq> 0"
    using rows by blast
  have 2: "\<forall>i. parseAmount (colCell (amountColIdx ?cols) (rawData ! i) CNull) = 0
          \<longrightarrow> (\<forall>t\<in>set ?out. extra t \<noteq> [(''_rowIndex'', CNum (real (i + 1)))])"
  proof (intro allI impI ballI notI)
    fix i t
    assume z: "parseAmount (colCell (amountColIdx ?cols) (rawData ! i) CNull) = 0"
      and t: "t \<in> set ?out" and e: "extra t = [(''_rowIndex'', CNum (real (i + 1)))]"
    from rows [OF t] obtain i' where i': "extra t = [(''_rowIndex'', CNum (real (i' + 1)))]"
      "amount t = parseAmount (colCell (amountColIdx ?cols) (rawData ! i') CNull)" "amount t \<noteq> 0"
      by blast
    from e i'(1) have "i' = i" by simp
    with i' z show False by simp
  qed
  have 3: "parseAmount (CStr ''$1,234.50'') = 1234.5" by code_simp
  have 4: "parseAmount (CStr ''(500)'') = - 500" by code_simp
  have 5: "parseAmount (CStr s) =
        (case parseFloat (trim (replaceParen (stripCurrency s))) of None \<Rightarrow> 0 | Some v \<Rightarrow> v)"
    by (simp add: cleanAmount_def)
  have 6: "v \<noteq> [] \<and> CHR '')'' \<notin> set v \<longrightarrow> replaceParen (CHR ''('' # v @ '')'') = CHR ''-'' # v"
    using replaceParen_whole by blast
  from 1 2 3 4 5 6 stripCurrency_set [of s] show ?thesis by simp
qed

theorem parseHierarchicalGL_amounts_witness:
  "findHeaderRow sampleBuiltins sampleGrid = Some 1
   \<and> map (\<lambda>t. (amount t, extra t)) (fst (parseHierarchicalGL sampleBuiltins sampleGrid (sampleWorld ''id'')))
       = [(300, [(''_rowIndex'', CNum 4)]), (- 50, [(''_rowIndex'', CNum 5)])]
   \<and> parseAmount (cellAt (sampleGrid ! 5) 5) = 0"
proof -
  have h: "findHeaderRow sampleBuiltins sampleGrid = Some 1" by code_simp
  have "map (\<lambda>t. (amount t, extra t)) (fst (parseHierarchicalGL sampleBuiltins sampleGrid (sampleWorld ''id'')))
       = [(300, [(''_rowIndex'', CNum 4)]), (- 50, [(''_rowIndex'', CNum 5)])]"
    by code_simp
  moreover have "parseAmount (cellAt (sampleGrid ! 5) 5) = 0" by code_simp
  ultimately show ?thesis
    using h parseHierarchicalGL_amounts [OF h, of 0 "''''" "''5''" "sampleWorld ''id''"] by blast
qed

subsection \<open>Column mapper\<close>

lemma detectMapping_outputKeys:
  "detectMapping outputKeys =
     \<lparr> date_col = Some ''date'', accountNumber_col = Some ''accountNumber'',
       accountName_col = Some ''description'', amount_col = Some ''amount'',
       description_col = Some ''description'', reference_col = Some ''reference'',
       vendor_col = Some ''vendor'' \<rparr>"
  by code_simp

lemma keys_asRecord:
  "extra t = [(''_rowIndex'', c)] \<Longrightarrow> map fst (asRecord t) = outputKeys"
  by (simp add: asRecord_def outputKeys_def)

lemma stringOrEmpty_CStr [simp]: "stringOrEmpty b (CStr s) = s"
  by (simp add: stringOrEmpty_def)

lemma parseRecord_asRecord:
  assumes "extra t = [(''_rowIndex'', CNum (real (idx + 1)))]"
  shows "parseRecord b (detectMapping outputKeys) idx (asRecord t) newId =
           t\<lparr> id_txn := newId, accountName := description t,
              reference := Some (case reference t of None \<Rightarrow> '''' | Some r \<Rightarrow> r),
              vendor := Some (case vendor t of None \<Rightarrow> '''' | Some v \<Rightarrow> v) \<rparr>"
  using assms
  by (cases t)
     (simp add: detectMapping_outputKeys parseRecord_def asRecord_def mappedCell_def property_def
        stringOrEmpty_def split: option.splits)

lemma fst_parseRecords_Cons:
  "fst (parseRecords b m idx (row # rows) w) =
     parseRecord b m idx row (fst (generateId w))
       # fst (parseRecords b m (idx + 1) rows (snd (generateId w)))"
  by (simp add: split_beta)

lemma parseRecords_length: "length (fst (parseRecords b m idx rows w)) = length rows"
  by (induction rows arbitrary: idx w) (simp_all add: fst_parseRecords_Cons del: parseRecords.simps(2))

lemma parseRecords_extra:
  "j < length rows \<Longrightarrow>
     extra (fst (parseRecords b m idx rows w) ! j) = [(''_rowIndex'', CNum (real (idx + j + 1)))]"
proof (induction rows arbitrary: idx w j)
  case Nil
  then show ?case by simp
next
  case (Cons row rows)
  show ?case
  proof (cases j)
    case 0
    then show ?thesis by (simp add: fst_parseRecords_Cons parseRecord_def del: parseRecords.simps(2))
  next
    case (Suc k)
    with Cons.prems have "k < length rows" by simp
    from Cons.IH [OF this, of "idx + 1" "snd (generateId w)"] Suc show ?thesis
      by (simp add: fst_parseRecords_Cons del: parseRecords.simps(2))
  qed
qed

lemma parseRecords_asRecord:
  assumes "\<forall>j<length ts. extra (ts ! j) = [(''_rowIndex'', CNum (real (idx + j + 1)))]"
  shows "fst (parseRecords b (detectMapping outputKeys) idx (map asRecord ts) w) = reparsed ts w"
  using assms
proof (induction ts arbitrary: idx w)
  case Nil
  then show ?case by simp
next
  case (Cons t ts)
  from Cons.prems have hd: "extra t = [(''_rowIndex'', CNum (real (idx + 1)))]"
    by fastforce
  have tl: "\<forall>j<length ts. extra (ts ! j) = [(''_rowIndex'', CNum (real (idx + 1 + j + 1)))]"
  proof (intro allI impI)
    fix j assume "j < length ts"
    then have "Suc j < length (t # ts)" by simp
    with Cons.prems have "extra ((t # ts) ! Suc j) = [(''_rowIndex'', CNum (real (idx + Suc j + 1)))]"
      by blast
    then show "extra (ts ! j) = [(''_rowIndex'', CNum (real (idx + 1 + j + 1)))]" by simp
  qed
  from Cons.IH [OF tl, of "snd (generateId w)"] parseRecord_asRecord [OF hd, of b "fst (generateId w)"]
  show ?case by (simp add: fst_parseRecords_Cons del: parseRecords.simps(2))
qed

lemma reparsed_fields:
  "length (reparsed ts w) = length ts
   \<and> map date (reparsed ts w) = map date ts
   \<and> map accountNumber (reparsed ts w) = map accountNumber ts
   \<and> map description (reparsed ts w) = map description ts
   \<and> map amount (reparsed ts w) = map amount ts
   \<and> map extra (reparsed ts w) = map extra ts
   \<and> map accountName (reparsed ts w) = map description ts"
  by (induction ts arbitrary: w) simp_all

text \<open>
  Claim C6, as stated, fails: the second pass of parseRawData finds no key that contains
  "account name" among the keys of a Transaction and takes the account name from the
  key "description". A record with account name Utilities and memo January power has
  the account name January power after the second pass, even with the same ids.
\<close>

theorem parseRawData_idempotent_counterexample:
  "map accountName (fst (parseRawData sampleBuiltins flatData (sampleWorld ''id''))) = [''Utilities'']
   \<and> map accountName (fst (parseRawData sampleBuiltins
        (map asRecord (fst (parseRawData sampleBuiltins flatData (sampleWorld ''id'')))) (sampleWorld ''id'')))
     = [''January power'']"
  by code_simp

text \<open>
  Claim C6, amended. Applying parseRawData to the records it returned keeps the date,
  accountNumber, description, amount and row index of every record; the accountName
  becomes the record's description, an absent reference or vendor becomes the empty
  string, and the ids are drawn afresh.
\<close>

theorem parseRawData_twice:
  "fst (parseRawData b (map asRecord (fst (parseRawData b data w))) w')
     = reparsed (fst (parseRawData b data w)) w'
   \<and> map date (reparsed (fst (parseRawData b data w)) w') = map date (fst (parseRawData b data w))
   \<and> map accountNumber (reparsed (fst (parseRawData b data w)) w') = map accountNumber (fst (parseRawData b data w))
   \<and> map description (reparsed (fst (parseRawData b data w)) w') = map description (fst (parseRawData b data w))
   \<and> map amount (reparsed (fst (parseRawData b data w)) w') = map amount (fst (parseRawData b data w))
   \<and> map extra (reparsed (fst (parseRawData b data w)) w') = map extra (fst (parseRawData b data w))
   \<and> map accountName (reparsed (fst (parseRawData b data w)) w') = map description (fst (parseRawData b data w))"
proof -
  define out1 where "out1 = fst (parseRawData b data w)"
  have "fst (parseRawData b (map asRecord out1) w') = reparsed out1 w'"
  proof (cases data)
    case Nil
    then show ?thesis by (simp add: out1_def parseRawData_def)
  next
    case (Cons sampleRow rest)
    let ?m = "detectMapping (map fst sampleRow)"
    have eq: "out1 = fst (parseRecords b ?m 0 data w)"
      using Cons by (simp add: out1_def parseRawData_def)
    have len: "length out1 = length data"
      by (simp add: eq parseRecords_length)
    have ex: "\<forall>j<length out1. extra (out1 ! j) = [(''_rowIndex'', CNum (real (0 + j + 1)))]"
      unfolding len unfolding eq using parseRecords_extra [of _ data b ?m 0 w] by blast
    from len Cons obtain t ts where ts: "out1 = t # ts"
      by (cases out1) auto
    with ex have "extra t = [(''_rowIndex'', CNum (real (0 + 0 + 1)))]" by fastforce
    then have keys: "map fst (asRecord t) = outputKeys" by (rule keys_asRecord)
    have "fst (parseRawData b (map asRecord out1) w')
        = fst (parseRecords b (detectMapping outputKeys) 0 (map asRecord out1) w')"
      by (simp add: parseRawData_def ts keys)
    also have "\<dots> = reparsed out1 w'"
      using ex by (rule parseRecords_asRecord)
    finally show ?thesis .
  qed
  with reparsed_fields [of out1 w'] show ?thesis by (simp add: out1_def)
qed

theorem parseRawData_twice_witness:
  "map (\<lambda>t. (id_txn t, accountName t, description t, amount t, reference t))
     (fst (parseRawData sampleBuiltins
        (map asRecord (fst (parseRawData sampleBuiltins flatData (sampleWorld ''a'')))) (sampleWorld ''b'')))
   = [(''b'', ''January power'', ''January power'', 1234.5, Some '''')]"
proof -
  have "map (\<lambda>t. (id_txn t, accountName t, description t, amount t, reference t))
     (reparsed (fst (parseRawData sampleBuiltins flatData (sampleWorld ''a''))) (sampleWorld ''b''))
   = [(''b'', ''January power'', ''January power'', 1234.5, Some '''')]"
    by code_simp
  with parseRawData_twice [of sampleBuiltins flatData "sampleWorld ''a''" "sampleWorld ''b''"]
  show ?thesis by simp
qed

end
